theory Spec2Isabelle
  imports Complex_Main "HOL-Library.Sublist"
begin

section \<open>Gold alert page: helpers and handlers of the orchestration controller\<close>

text \<open>
  The development follows the page module (helpers \<open>parseAgentResult\<close>, \<open>buildCron\<close>,
  \<open>composeAgentMessage\<close>, the recipient editor, and the handlers of \<open>Page\<close>) and
  \<open>lib/fetchWrapper.ts\<close>. JavaScript strings are lists of characters; a value that may be
  \<open>undefined\<close> is an \<open>option\<close>; a call that may throw gives \<open>Inl\<close> of an error or \<open>Inr\<close> of
  its value.
\<close>

subsection \<open>Cron translator\<close>

text \<open>
  \<open>String.prototype.split\<close> with a one-character separator: the pieces between the
  occurrences of the separator; the empty string gives the one-element list of the
  empty string.
\<close>

fun split_on :: "char \<Rightarrow> string \<Rightarrow> string list" where
  "split_on c [] = [[]]"
| "split_on c (x # xs) =
     (if x = c then [] # split_on c xs
      else (case split_on c xs of
              [] \<Rightarrow> [[x]]
            | p # ps \<Rightarrow> (x # p) # ps))"

text \<open>Reading an array element: \<open>undefined\<close> beyond the end.\<close>

fun element_at :: "'a list \<Rightarrow> nat \<Rightarrow> 'a option" where
  "element_at [] n = None"
| "element_at (x # xs) 0 = Some x"
| "element_at (x # xs) (Suc n) = element_at xs n"

text \<open>The nullish coalescing operator \<open>a ?? b\<close> on a value that may be \<open>undefined\<close>.\<close>

definition nullish_or :: "'a option \<Rightarrow> 'a \<Rightarrow> 'a" where
  "nullish_or a b = (case a of None \<Rightarrow> b | Some v \<Rightarrow> v)"

definition buildCron :: "string \<Rightarrow> string \<Rightarrow> string" where
  "buildCron frequency time =
     (let parts = split_on CHR '':'' time;
          hour = element_at parts 0;
          minute = element_at parts 1;
          h = nullish_or hour ''9'';
          m = nullish_or minute ''0''
      in if frequency = ''hourly'' then m @ '' * * * *''
         else if frequency = ''daily'' then m @ '' '' @ h @ '' * * *''
         else if frequency = ''weekly'' then m @ '' '' @ h @ '' * * 1''
         else m @ '' '' @ h @ '' * * *'')"

subsection \<open>JavaScript values and errors\<close>

datatype error = SyntaxError | CallFailed | QuotaExceededError

text \<open>
  The values an agent response can hold: those of JSON, and \<open>undefined\<close> for an absent
  field. A number is a rational (the values that are not rationals, and the rounding of
  binary64, are not modelled: the code tests a number for being zero and computes nothing
  with it). An object is the list of its members, in the order the platform enumerates
  them.
\<close>

datatype jsval =
    JUndefined
  | JNull
  | JBool bool
  | JNum rat
  | JStr string
  | JArr "jsval list"
  | JObj "(string \<times> jsval) list"

text \<open>Truthiness, as \<open>!x\<close> and \<open>if (x)\<close> test it.\<close>

fun truthy :: "jsval \<Rightarrow> bool" where
  "truthy JUndefined = False"
| "truthy JNull = False"
| "truthy (JBool b) = b"
| "truthy (JNum q) = (q \<noteq> 0)"
| "truthy (JStr s) = (s \<noteq> [])"
| "truthy (JArr vs) = True"
| "truthy (JObj ms) = True"

fun typeof :: "jsval \<Rightarrow> string" where
  "typeof JUndefined = ''undefined''"
| "typeof JNull = ''object''"
| "typeof (JBool b) = ''boolean''"
| "typeof (JNum q) = ''number''"
| "typeof (JStr s) = ''string''"
| "typeof (JArr vs) = ''object''"
| "typeof (JObj ms) = ''object''"

subsection \<open>JSON text\<close>

text \<open>
  \<open>JSON.parse\<close> is a function of the platform. \<open>parseAgentResult\<close> and \<open>handleCheckNow\<close> below
  take it as a parameter \<open>parse\<close>, and every general statement about them holds for any
  \<open>parse\<close>. \<open>JSON_parse\<close> is the grammar of ECMA-404 on texts of 8-bit characters, for the
  sample runs on ASCII texts: white space, the three literals, numbers, strings with their
  escapes, arrays and objects. It is not the platform's function beyond that: a four-digit
  hexadecimal escape above code 255 has no 8-bit character and is answered with a syntax
  error, and a number keeps the exact value of its digits where the platform rounds it to
  binary64 (except that what rounds to zero is zero).
\<close>

definition is_ws :: "char \<Rightarrow> bool" where
  "is_ws c = (c = CHR '' '' \<or> c = CHR 0x09 \<or> c = CHR 0x0A \<or> c = CHR 0x0D)"

definition skip_ws :: "string \<Rightarrow> string" where
  "skip_ws = dropWhile is_ws"

definition is_digit :: "char \<Rightarrow> bool" where
  "is_digit c = (48 \<le> (of_char c :: nat) \<and> (of_char c :: nat) \<le> 57)"

definition digit_val :: "char \<Rightarrow> int" where
  "digit_val c = of_char c - 48"

definition digits_val :: "string \<Rightarrow> int" where
  "digits_val ds = foldl (\<lambda>acc d. 10 * acc + digit_val d) 0 ds"

definition hex_val :: "char \<Rightarrow> nat option" where
  "hex_val c =
     (let n = (of_char c :: nat)
      in if 48 \<le> n \<and> n \<le> 57 then Some (n - 48)
         else if 65 \<le> n \<and> n \<le> 70 then Some (n - 55)
         else if 97 \<le> n \<and> n \<le> 102 then Some (n - 87)
         else None)"

definition unescape :: "char \<Rightarrow> char option" where
  "unescape e =
     (if e = CHR 0x22 then Some (CHR 0x22)
      else if e = CHR 0x5C then Some (CHR 0x5C)
      else if e = CHR ''/'' then Some (CHR ''/'')
      else if e = CHR ''b'' then Some (CHR 0x08)
      else if e = CHR ''f'' then Some (CHR 0x0C)
      else if e = CHR ''n'' then Some (CHR 0x0A)
      else if e = CHR ''r'' then Some (CHR 0x0D)
      else if e = CHR ''t'' then Some (CHR 0x09)
      else None)"

definition unicode_escape :: "char \<Rightarrow> char \<Rightarrow> char \<Rightarrow> char \<Rightarrow> char option" where
  "unicode_escape a b c d =
     (case (hex_val a, hex_val b, hex_val c, hex_val d) of
        (Some x3, Some x2, Some x1, Some x0) \<Rightarrow>
          (if x3 = 0 \<and> x2 = 0 then Some (char_of (16 * x1 + x0)) else None)
      | _ \<Rightarrow> None)"

definition cons_result :: "'a \<Rightarrow> ('a list \<times> 'b) option \<Rightarrow> ('a list \<times> 'b) option" where
  "cons_result x r = (case r of None \<Rightarrow> None | Some (xs, rest) \<Rightarrow> Some (x # xs, rest))"

text \<open>The characters of a string after its opening quote, up to the closing one.\<close>

fun string_body :: "string \<Rightarrow> (string \<times> string) option" where
  "string_body [] = None"
| "string_body (c # cs) =
     (if c = CHR 0x22 then Some ([], cs)
      else if c = CHR 0x5C then
        (case cs of
           [] \<Rightarrow> None
         | e # cs1 \<Rightarrow>
             (if e = CHR ''u'' then
                (case cs1 of
                   a # b # c2 # d # cs2 \<Rightarrow>
                     (case unicode_escape a b c2 d of
                        None \<Rightarrow> None
                      | Some u \<Rightarrow> cons_result u (string_body cs2))
                 | _ \<Rightarrow> None)
              else
                (case unescape e of
                   None \<Rightarrow> None
                 | Some u \<Rightarrow> cons_result u (string_body cs1))))
      else if (of_char c :: nat) < 32 then None
      else cons_result c (string_body cs))"

text \<open>
  A number: optional minus, an integer part without leading zero, an optional fraction
  and an optional exponent.
\<close>

definition int_part :: "string \<Rightarrow> (string \<times> string) option" where
  "int_part cs =
     (case cs of
        [] \<Rightarrow> None
      | c # rest \<Rightarrow>
          (if c = CHR ''0'' then Some ([c], rest)
           else if is_digit c then Some (takeWhile is_digit cs, dropWhile is_digit cs)
           else None))"

definition frac_part :: "string \<Rightarrow> (string \<times> string) option" where
  "frac_part cs =
     (case cs of
        c # rest \<Rightarrow>
          (if c = CHR ''.'' then
             (if takeWhile is_digit rest = [] then None
              else Some (takeWhile is_digit rest, dropWhile is_digit rest))
           else Some ([], cs))
      | [] \<Rightarrow> Some ([], cs))"

definition exp_digits :: "bool \<Rightarrow> string \<Rightarrow> (int \<times> string) option" where
  "exp_digits neg cs =
     (if takeWhile is_digit cs = [] then None
      else Some ((if neg then - digits_val (takeWhile is_digit cs)
                  else digits_val (takeWhile is_digit cs)),
                 dropWhile is_digit cs))"

definition exp_part :: "string \<Rightarrow> (int \<times> string) option" where
  "exp_part cs =
     (case cs of
        c # rest \<Rightarrow>
          (if c = CHR ''e'' \<or> c = CHR ''E'' then
             (case rest of
                s # rest1 \<Rightarrow>
                  (if s = CHR ''+'' then exp_digits False rest1
                   else if s = CHR ''-'' then exp_digits True rest1
                   else exp_digits False rest)
              | [] \<Rightarrow> None)
           else Some (0, cs))
      | [] \<Rightarrow> Some (0, cs))"

definition scale10 :: "rat \<Rightarrow> int \<Rightarrow> rat" where
  "scale10 q e = (if 0 \<le> e then q * 10 ^ nat e else q / 10 ^ nat (- e))"

text \<open>
  The value of a number token is the rational its digits denote, or zero when that rational
  is so small that it rounds to zero in binary64 (a magnitude of at most 2 to the power
  -1075), as \<open>1e-400\<close> does: the code tests a number for being zero and reads nothing else
  of it.
\<close>

definition round_to_zero :: "rat \<Rightarrow> rat" where
  "round_to_zero q = (if \<bar>q\<bar> \<le> 1 / 2 ^ 1075 then 0 else q)"

definition number_token :: "string \<Rightarrow> (rat \<times> string) option" where
  "number_token cs =
     (let neg = (case cs of c # _ \<Rightarrow> c = CHR ''-'' | [] \<Rightarrow> False);
          cs0 = (if neg then tl cs else cs)
      in case int_part cs0 of
           None \<Rightarrow> None
         | Some (ip, cs1) \<Rightarrow>
             (case frac_part cs1 of
                None \<Rightarrow> None
              | Some (fp, cs2) \<Rightarrow>
                  (case exp_part cs2 of
                     None \<Rightarrow> None
                   | Some (e, cs3) \<Rightarrow>
                       (let mag = round_to_zero
                                    (scale10 (of_int (digits_val (ip @ fp))) (e - int (length fp)))
                        in Some ((if neg then - mag else mag), cs3)))))"

definition literal_token :: "string \<Rightarrow> jsval \<Rightarrow> string \<Rightarrow> (jsval \<times> string) option" where
  "literal_token word v cs =
     (if take (length word) cs = word then Some (v, drop (length word) cs) else None)"

text \<open>
  Setting a property: a repeated key keeps its place and takes the later value. The
  members of an object are listed as the platform enumerates them: the keys that are array
  indices (canonical decimal numerals up to 4294967294) in ascending order first, then the
  other keys in the order of their first appearance.
\<close>

fun set_member :: "string \<Rightarrow> jsval \<Rightarrow> (string \<times> jsval) list \<Rightarrow> (string \<times> jsval) list" where
  "set_member k v [] = [(k, v)]"
| "set_member k v ((k1, v1) # ms) =
     (if k = k1 then (k, v) # ms else (k1, v1) # set_member k v ms)"

definition is_array_index :: "string \<Rightarrow> bool" where
  "is_array_index k =
     (k \<noteq> [] \<and> list_all is_digit k \<and> (k = ''0'' \<or> hd k \<noteq> CHR ''0'')
      \<and> length k \<le> 10 \<and> digits_val k < 4294967295)"

fun insert_index :: "string \<times> jsval \<Rightarrow> (string \<times> jsval) list \<Rightarrow> (string \<times> jsval) list" where
  "insert_index m [] = [m]"
| "insert_index m (m1 # ms) =
     (if digits_val (fst m) \<le> digits_val (fst m1) then m # m1 # ms
      else m1 # insert_index m ms)"

definition object_of :: "(string \<times> jsval) list \<Rightarrow> jsval" where
  "object_of ms =
     (let members = foldl (\<lambda>acc (k, v). set_member k v acc) [] ms
      in JObj (foldr insert_index (filter (\<lambda>m. is_array_index (fst m)) members) []
               @ filter (\<lambda>m. \<not> is_array_index (fst m)) members))"

text \<open>
  The recursive descent over values, array elements and object members. The first argument
  bounds the depth of the nested calls; \<open>JSON_parse\<close> gives it the length of the text and one
  more, and answers with a syntax error when the descent stops without a value or leaves
  more than white space behind.
\<close>

fun parse_value :: "nat \<Rightarrow> string \<Rightarrow> (jsval \<times> string) option"
  and parse_elements :: "nat \<Rightarrow> string \<Rightarrow> (jsval list \<times> string) option"
  and parse_members :: "nat \<Rightarrow> string \<Rightarrow> ((string \<times> jsval) list \<times> string) option"
where
  "parse_value 0 cs = None"
| "parse_value (Suc n) cs =
     (case skip_ws cs of
        [] \<Rightarrow> None
      | c # rest \<Rightarrow>
          (if c = CHR ''{'' then
             (case skip_ws rest of
                [] \<Rightarrow> None
              | c1 # rest1 \<Rightarrow>
                  (if c1 = CHR ''}'' then Some (JObj [], rest1)
                   else (case parse_members n rest of
                           None \<Rightarrow> None
                         | Some (ms, r) \<Rightarrow> Some (object_of ms, r))))
           else if c = CHR ''['' then
             (case skip_ws rest of
                [] \<Rightarrow> None
              | c1 # rest1 \<Rightarrow>
                  (if c1 = CHR '']'' then Some (JArr [], rest1)
                   else (case parse_elements n rest of
                           None \<Rightarrow> None
                         | Some (vs, r) \<Rightarrow> Some (JArr vs, r))))
           else if c = CHR 0x22 then
             (case string_body rest of
                None \<Rightarrow> None
              | Some (s, r) \<Rightarrow> Some (JStr s, r))
           else if c = CHR ''t'' then literal_token ''true'' (JBool True) (c # rest)
           else if c = CHR ''f'' then literal_token ''false'' (JBool False) (c # rest)
           else if c = CHR ''n'' then literal_token ''null'' JNull (c # rest)
           else (case number_token (c # rest) of
                   None \<Rightarrow> None
                 | Some (q, r) \<Rightarrow> Some (JNum q, r))))"
| "parse_elements 0 cs = None"
| "parse_elements (Suc n) cs =
     (case parse_value n cs of
        None \<Rightarrow> None
      | Some (v, r) \<Rightarrow>
          (case skip_ws r of
             [] \<Rightarrow> None
           | c # r1 \<Rightarrow>
               (if c = CHR '','' then cons_result v (parse_elements n r1)
                else if c = CHR '']'' then Some ([v], r1)
                else None)))"
| "parse_members 0 cs = None"
| "parse_members (Suc n) cs =
     (case skip_ws cs of
        [] \<Rightarrow> None
      | q # rest \<Rightarrow>
          (if q \<noteq> CHR 0x22 then None
           else (case string_body rest of
                   None \<Rightarrow> None
                 | Some (k, r) \<Rightarrow>
                     (case skip_ws r of
                        [] \<Rightarrow> None
                      | colon # r1 \<Rightarrow>
                          (if colon \<noteq> CHR '':'' then None
                           else (case parse_value n r1 of
                                   None \<Rightarrow> None
                                 | Some (v, r2) \<Rightarrow>
                                     (case skip_ws r2 of
                                        [] \<Rightarrow> None
                                      | c # r3 \<Rightarrow>
                                          (if c = CHR '','' then
                                             cons_result (k, v) (parse_members n r3)
                                           else if c = CHR ''}'' then Some ([(k, v)], r3)
                                           else None))))))))"

definition JSON_parse :: "string \<Rightarrow> error + jsval" where
  "JSON_parse s =
     (case parse_value (Suc (length s)) s of
        None \<Rightarrow> Inl SyntaxError
      | Some (v, rest) \<Rightarrow> (if skip_ws rest = [] then Inr v else Inl SyntaxError))"

subsection \<open>Response normalizer\<close>

text \<open>
  The first match of the regular expression \<open>/\{[\s\S]*\}/\<close>: it starts at the first opening
  brace and, the star being greedy, ends at the last closing brace after it.
\<close>

definition match_braces :: "string \<Rightarrow> string option" where
  "match_braces s =
     (let from_open = dropWhile (\<lambda>c. c \<noteq> CHR ''{'') s;
          to_close = rev (dropWhile (\<lambda>c. c \<noteq> CHR ''}'') (rev from_open))
      in if to_close = [] then None else Some to_close)"

text \<open>
  \<open>parseAgentResult\<close>, with the platform's \<open>JSON.parse\<close> as \<open>parse\<close>. The two \<open>try\<close> blocks are
  the two case distinctions on the parser's outcome.
\<close>

definition parseAgentResult :: "(string \<Rightarrow> error + jsval) \<Rightarrow> jsval \<Rightarrow> error + jsval" where
  "parseAgentResult parse result =
     (if \<not> truthy result then Inr JNull
      else if typeof result = ''object'' then Inr result
      else (case result of
              JStr s \<Rightarrow>
                (case parse s of
                   Inr v \<Rightarrow> Inr v
                 | Inl e \<Rightarrow>
                     (case match_braces s of
                        Some jsonMatch \<Rightarrow>
                          (case parse jsonMatch of
                             Inr v \<Rightarrow> Inr v
                           | Inl e1 \<Rightarrow> Inr JNull)
                      | None \<Rightarrow> Inr JNull))
            | _ \<Rightarrow> Inr JNull))"

text \<open>
  The normalizer as the specification words it for strings: a direct parse, then the first
  balanced brace span, then null.
\<close>

fun balanced_span :: "nat \<Rightarrow> string \<Rightarrow> string option" where
  "balanced_span d [] = None"
| "balanced_span d (c # cs) =
     (if c = CHR ''{'' then map_option ((#) c) (balanced_span (Suc d) cs)
      else if c = CHR ''}'' then
        (if d \<le> 1 then Some [c] else map_option ((#) c) (balanced_span (d - 1) cs))
      else map_option ((#) c) (balanced_span d cs))"

definition first_balanced_span :: "string \<Rightarrow> string option" where
  "first_balanced_span s = balanced_span 0 (dropWhile (\<lambda>c. c \<noteq> CHR ''{'') s)"

definition normalize_first_balanced :: "(string \<Rightarrow> error + jsval) \<Rightarrow> string \<Rightarrow> error + jsval" where
  "normalize_first_balanced parse s =
     (case parse s of
        Inr v \<Rightarrow> Inr v
      | Inl e \<Rightarrow>
          (case first_balanced_span s of
             None \<Rightarrow> Inr JNull
           | Some balanced \<Rightarrow> (case parse balanced of Inr v \<Rightarrow> Inr v | Inl e1 \<Rightarrow> Inr JNull)))"

subsection \<open>Settings and message composer\<close>

record AlertSettings =
  recipientEmails :: "string list"
  frequency :: string
  triggerTime :: string
  timezone :: string
  thresholdEnabled :: bool
  thresholdAbove :: string
  thresholdBelow :: string
  unit :: string

definition DEFAULT_SETTINGS :: AlertSettings where
  "DEFAULT_SETTINGS =
     \<lparr> recipientEmails = [], frequency = ''daily'', triggerTime = ''09:00'',
       timezone = ''America/New_York'', thresholdEnabled = False,
       thresholdAbove = ''2500'', thresholdBelow = ''2000'', unit = ''ounce'' \<rparr>"

text \<open>\<open>Array.prototype.join\<close>.\<close>

fun join_with :: "string \<Rightarrow> string list \<Rightarrow> string" where
  "join_with sep [] = []"
| "join_with sep [x] = x"
| "join_with sep (x # y # ys) = x @ sep @ join_with sep (y # ys)"

text \<open>
  \<open>composeAgentMessage\<close>. \<open>recipientEmails\<close> is an array by its type, so the \<open>Array.isArray\<close>
  test is the length test alone; a string is truthy when it is not empty.
\<close>

definition threshold_parts :: "AlertSettings \<Rightarrow> string list" where
  "threshold_parts settings =
     (let unitLabel = (if unit settings = ''gram'' then ''g'' else ''oz'');
          parts0 = [];
          parts1 = (if thresholdAbove settings \<noteq> []
                    then parts0 @ [''above $'' @ thresholdAbove settings @ ''/'' @ unitLabel]
                    else parts0);
          parts2 = (if thresholdBelow settings \<noteq> []
                    then parts1 @ [''below $'' @ thresholdBelow settings @ ''/'' @ unitLabel]
                    else parts1)
      in parts2)"

definition thresholdLine :: "AlertSettings \<Rightarrow> string" where
  "thresholdLine settings =
     (if thresholdEnabled settings \<and> length (threshold_parts settings) > 0
      then ''Alert when price goes '' @ join_with '' or '' (threshold_parts settings)
      else ''No threshold configured'')"

definition composeAgentMessage :: "AlertSettings \<Rightarrow> string" where
  "composeAgentMessage settings =
     (let emails = (if length (recipientEmails settings) > 0
                    then join_with '', '' (recipientEmails settings)
                    else ''no recipients configured'')
      in ''Fetch current gold prices and send an alert email.\<newline>Recipients: '' @ emails
         @ ''\<newline>Threshold: '' @ thresholdLine settings
         @ ''\<newline>Unit preference: '' @ unit settings)"

subsection \<open>Recipient editor\<close>

text \<open>
  \<open>String.prototype.trim\<close> removes white space and line terminators at both ends; among
  8-bit characters these are the codes 9 to 13, 32 and 160.
\<close>

definition is_js_space :: "char \<Rightarrow> bool" where
  "is_js_space c =
     (let n = (of_char c :: nat) in (9 \<le> n \<and> n \<le> 13) \<or> n = 32 \<or> n = 160)"

definition trim :: "string \<Rightarrow> string" where
  "trim s = rev (dropWhile is_js_space (rev (dropWhile is_js_space s)))"

text \<open>
  \<open>addEmail\<close> reads the input box and the settings and gives the settings handed to
  \<open>onSettingsChange\<close> (the settings themselves when it is not called) and the new content of
  the input box.
\<close>

definition addEmail :: "string \<Rightarrow> AlertSettings \<Rightarrow> AlertSettings \<times> string" where
  "addEmail emailInput settings =
     (let email = trim emailInput
      in if email = [] then (settings, emailInput)
         else ((if CHR ''@'' \<in> set email \<and> email \<notin> set (recipientEmails settings)
                then settings\<lparr>recipientEmails := recipientEmails settings @ [email]\<rparr>
                else settings),
               []))"

definition removeEmail :: "string \<Rightarrow> AlertSettings \<Rightarrow> AlertSettings" where
  "removeEmail email settings =
     settings\<lparr>recipientEmails := filter (\<lambda>e. e \<noteq> email) (recipientEmails settings)\<rparr>"

subsection \<open>Resilient call gateway\<close>

record response =
  redirected :: bool
  status :: int
  url :: string
  body :: string

text \<open>
  What the gateway does to the browser: the address it navigates to, the reloads it asks
  for, and the prompts it shows. \<open>confirm\<close> is the user's answer to a prompt.
\<close>

record browser =
  location_href :: string
  reloads :: nat
  prompts :: "string list"

definition backend_prompt :: string where
  "backend_prompt =
     ''Backend is not responding.\<newline>\<newline>.Click OK to refresh, if you are seeing this repeatedly ask Architect to fix errors in the app.''"

definition network_prompt :: string where
  "network_prompt =
     ''Cannot connect to backend.\<newline>\<newline>Click OK to refresh, if you are seeing this repeatedly ask Architect to fix errors in the app.''"

definition ask_refresh :: "(string \<Rightarrow> bool) \<Rightarrow> string \<Rightarrow> browser \<Rightarrow> browser" where
  "ask_refresh confirm text b =
     (let shouldRefresh = confirm text;
          b1 = b\<lparr>prompts := prompts b @ [text]\<rparr>
      in if shouldRefresh then b1\<lparr>reloads := Suc (reloads b1)\<rparr> else b1)"

text \<open>
  \<open>fetchWrapper\<close>: \<open>fetch\<close> answers the request \<open>args\<close> with a response or fails. The result is
  \<open>Inr None\<close> for \<open>undefined\<close>, \<open>Inr (Some r)\<close> for a response and \<open>Inl\<close> for an exception
  that reaches the caller.
\<close>

definition fetchWrapper ::
  "('a \<Rightarrow> error + response) \<Rightarrow> (string \<Rightarrow> bool) \<Rightarrow> 'a \<Rightarrow> browser
     \<Rightarrow> (error + response option) \<times> browser" where
  "fetchWrapper fetch confirm args b =
     (case fetch args of
        Inr resp \<Rightarrow>
          (if redirected resp then (Inr None, b\<lparr>location_href := url resp\<rparr>)
           else if status resp \<ge> 500 then (Inr None, ask_refresh confirm backend_prompt b)
           else (Inr (Some resp), b))
      | Inl e \<Rightarrow> (Inr None, ask_refresh confirm network_prompt b))"

subsection \<open>Page state, local storage and the external services\<close>

definition MANAGER_AGENT_ID :: string where
  "MANAGER_AGENT_ID = ''6997285ac4e47cc7968fd581''"

definition INITIAL_SCHEDULE_ID :: string where
  "INITIAL_SCHEDULE_ID = ''69972860399dfadeac37b79a''"

definition STORAGE_KEY :: string where
  "STORAGE_KEY = ''gold_alert_settings''"

definition SCHEDULE_ID_KEY :: string where
  "SCHEDULE_ID_KEY = ''gold_alert_schedule_id''"

record Schedule =
  schedule_ident :: string
  is_active :: bool
  cron_expression :: string
  next_run_time :: "string option"
  last_run_at :: "string option"

record ExecutionLog =
  log_id :: string
  log_schedule_id :: string
  executed_at :: string
  attempt :: nat
  max_attempts :: nat
  log_success :: bool
  payload_message :: string
  response_status :: int
  response_output :: jsval
  error_message :: "string option"

datatype notification_type = Success | Error

record Notification =
  ntype :: notification_type
  message :: string

datatype tab = Dashboard | Settings

text \<open>
  The state of \<open>Page\<close>: its \<open>useState\<close> variables, and the processing flag of the agent
  activity subscription, which the page sets through \<open>setProcessing\<close>.
\<close>

record page_state =
  activeTab :: tab
  settings :: AlertSettings
  schedule :: "Schedule option"
  scheduleLoading :: bool
  logs :: "ExecutionLog list"
  logsLoading :: bool
  lastResult :: jsval
  checkNowLoading :: bool
  saving :: bool
  notification :: "Notification option"
  sampleMode :: bool
  scheduleId :: string
  sessionId :: "string option"
  activeAgentId :: "string option"
  processing :: bool

text \<open>
  The calls a handler makes that leave the page, in the order it makes them:
  writes to local storage and requests to the scheduler and to the agent.
\<close>

datatype call =
    SetItem string string
  | DeleteSchedule string
  | CreateSchedule string string string string
  | PauseSchedule string
  | ResumeSchedule string
  | GetSchedule string
  | CallAIAgent string string

record world =
  window_defined :: bool
  localStorage :: "string \<rightharpoonup> string"
  accepts_write :: "string \<Rightarrow> string \<Rightarrow> bool"
  calls :: "call list"

definition record_call :: "call \<Rightarrow> world \<Rightarrow> world" where
  "record_call c w = w\<lparr>calls := calls w @ [c]\<rparr>"

text \<open>
  \<open>localStorage.setItem\<close> stores the value, or throws when the browser refuses the write (a
  full or disabled storage); \<open>accepts_write\<close> says which writes the browser takes. The result
  is the outcome of the call and the world after it; a refused write leaves the storage as
  it was.
\<close>

definition setItem :: "string \<Rightarrow> string \<Rightarrow> world \<Rightarrow> (error + unit) \<times> world" where
  "setItem k v w =
     (if accepts_write w k v
      then (Inr (), record_call (SetItem k v) (w\<lparr>localStorage := (localStorage w)(k \<mapsto> v)\<rparr>))
      else (Inl QuotaExceededError, record_call (SetItem k v) w))"

text \<open>\<open>saveSettings\<close> takes \<open>JSON.stringify\<close> on settings as \<open>stringify\<close>.\<close>

definition saveSettings ::
  "(AlertSettings \<Rightarrow> string) \<Rightarrow> AlertSettings \<Rightarrow> world \<Rightarrow> (error + unit) \<times> world" where
  "saveSettings stringify s w =
     (if \<not> window_defined w then (Inr (), w) else setItem STORAGE_KEY (stringify s) w)"

definition saveScheduleId :: "string \<Rightarrow> world \<Rightarrow> (error + unit) \<times> world" where
  "saveScheduleId ident w =
     (if \<not> window_defined w then (Inr (), w) else setItem SCHEDULE_ID_KEY ident w)"

text \<open>
  The results of the scheduler library and of the agent call, whose modules are imported
  by the page. Each function of \<open>services\<close> gives the outcome of one request: \<open>Inl\<close> when the
  awaited call throws, or gives no result object where the handler reads a property of it,
  which throws as well.
\<close>

record create_result =
  c_success :: bool
  c_schedule :: "Schedule option"
  c_error :: "string option"

record get_result =
  g_success :: bool
  g_schedule :: "Schedule option"

record agent_response =
  result :: jsval

record agent_result =
  a_success :: bool
  session_id :: "string option"
  response :: "agent_response option"
  a_error :: "string option"

record services =
  deleteSchedule :: "string \<Rightarrow> error + bool"
  createSchedule :: "string \<Rightarrow> string \<Rightarrow> string \<Rightarrow> string \<Rightarrow> error + create_result"
  pauseSchedule :: "string \<Rightarrow> error + bool"
  resumeSchedule :: "string \<Rightarrow> error + bool"
  getSchedule :: "string \<Rightarrow> error + get_result"
  callAIAgent :: "string \<Rightarrow> string \<Rightarrow> error + agent_result option"

definition notify :: "notification_type \<Rightarrow> string \<Rightarrow> page_state \<Rightarrow> page_state" where
  "notify t m p = p\<lparr>notification := Some \<lparr>ntype = t, message = m\<rparr>\<rparr>"

subsection \<open>Handlers of the page\<close>

text \<open>
  \<open>handleToggleSchedule\<close>. The first request is the pause or the resume; when it throws, the
  \<open>catch\<close> block runs and no get is made.
\<close>

definition handleToggleSchedule :: "services \<Rightarrow> page_state \<Rightarrow> world \<Rightarrow> page_state \<times> world" where
  "handleToggleSchedule svc p w =
     (case schedule p of
        None \<Rightarrow> (p, w)
      | Some sch \<Rightarrow>
          (let p1 = p\<lparr>scheduleLoading := True\<rparr>;
               w1 = (if is_active sch then record_call (PauseSchedule (scheduleId p)) w
                     else record_call (ResumeSchedule (scheduleId p)) w);
               toggled = (if is_active sch then pauseSchedule svc (scheduleId p)
                          else resumeSchedule svc (scheduleId p));
               failed = notify Error ''Failed to update schedule status'' p1;
               (p2, w2) =
                 (case toggled of
                    Inl e \<Rightarrow> (failed, w1)
                  | Inr ok \<Rightarrow>
                      (let w2 = record_call (GetSchedule (scheduleId p)) w1
                       in case getSchedule svc (scheduleId p) of
                            Inl e \<Rightarrow> (failed, w2)
                          | Inr res \<Rightarrow>
                              (let p2 = (if g_success res \<and> g_schedule res \<noteq> None
                                         then p1\<lparr>schedule := g_schedule res\<rparr>
                                         else p1)
                               in (notify Success
                                     (if is_active sch then ''Schedule paused''
                                      else ''Schedule resumed'') p2,
                                   w2))))
           in (p2\<lparr>scheduleLoading := False\<rparr>, w2)))"

text \<open>
  \<open>handleCheckNow\<close>, with \<open>JSON.parse\<close> as \<open>parse\<close>. \<open>result\<close> may be \<open>undefined\<close>; the optional
  chaining \<open>result?.f\<close> is \<open>Option.bind\<close>.
\<close>

definition handleCheckNow ::
  "services \<Rightarrow> (string \<Rightarrow> error + jsval) \<Rightarrow> page_state \<Rightarrow> world \<Rightarrow> page_state \<times> world" where
  "handleCheckNow svc parse p w =
     (let p1 = p\<lparr>checkNowLoading := True, activeAgentId := Some MANAGER_AGENT_ID,
                 processing := True\<rparr>;
          message = composeAgentMessage (settings p);
          w1 = record_call (CallAIAgent message MANAGER_AGENT_ID) w;
          failed = notify Error ''Network error while checking gold price'';
          p2 =
            (case callAIAgent svc message MANAGER_AGENT_ID of
               Inl e \<Rightarrow> failed p1
             | Inr res \<Rightarrow>
                 (let p1a = (case Option.bind res session_id of
                               None \<Rightarrow> p1
                             | Some sid \<Rightarrow> (if sid \<noteq> [] then p1\<lparr>sessionId := Some sid\<rparr> else p1))
                  in if (case res of None \<Rightarrow> False | Some r \<Rightarrow> a_success r) then
                       (case parseAgentResult parse
                               (case Option.bind res response of
                                  None \<Rightarrow> JUndefined
                                | Some b \<Rightarrow> result b) of
                          Inl e \<Rightarrow> failed p1a
                        | Inr parsed \<Rightarrow>
                            (if truthy parsed then
                               notify Success ''Gold price check completed successfully''
                                 (p1a\<lparr>lastResult := parsed\<rparr>)
                             else notify Success ''Agent responded. Check results below.'' p1a))
                     else
                       notify Error
                         (nullish_or (Option.bind res a_error) ''Failed to check gold price'')
                         p1a))
      in (p2\<lparr>checkNowLoading := False, activeAgentId := None, processing := False\<rparr>, w1))"

text \<open>
  \<open>handleSaveSettings\<close>. Everything runs inside the outer \<open>try\<close> block, whose \<open>catch\<close> block
  sets the notification \<open>Error saving configuration\<close>: it takes an exception of the write of
  the settings (then nothing is requested), of the create request, and of the write of the
  new identifier (then \<open>setScheduleId\<close> has run, \<open>setSchedule\<close> and the success notification
  have not). The outcome of the delete request is not looked at: the inner \<open>try\<close> block
  swallows its exception. The test \<open>createRes.success && createRes.schedule\<close> is the schedule
  of the result when \<open>success\<close> holds and the schedule is there.
\<close>

definition handleSaveSettings ::
  "services \<Rightarrow> (AlertSettings \<Rightarrow> string) \<Rightarrow> page_state \<Rightarrow> world \<Rightarrow> page_state \<times> world" where
  "handleSaveSettings svc stringify p w =
     (let p1 = p\<lparr>saving := True\<rparr>;
          failed = notify Error ''Error saving configuration'';
          (saved, w1) = saveSettings stringify (settings p) w;
          (p2, w5) =
            (case saved of
               Inl e \<Rightarrow> (failed p1, w1)
             | Inr u \<Rightarrow>
                 (let newCron = buildCron (frequency (settings p)) (triggerTime (settings p));
                      message = composeAgentMessage (settings p);
                      w2 = (case deleteSchedule svc (scheduleId p) of
                              Inl e \<Rightarrow> record_call (DeleteSchedule (scheduleId p)) w1
                            | Inr ok \<Rightarrow> record_call (DeleteSchedule (scheduleId p)) w1);
                      w3 = record_call
                             (CreateSchedule MANAGER_AGENT_ID newCron message
                                (timezone (settings p))) w2
                  in case createSchedule svc MANAGER_AGENT_ID newCron message
                            (timezone (settings p)) of
                       Inl e \<Rightarrow> (failed p1, w3)
                     | Inr createRes \<Rightarrow>
                         (case (if c_success createRes then c_schedule createRes else None) of
                            Some created \<Rightarrow>
                              (let newId = schedule_ident created;
                                   p1a = p1\<lparr>scheduleId := newId\<rparr>;
                                   (persisted, w4) = saveScheduleId newId w3
                               in case persisted of
                                    Inl e \<Rightarrow> (failed p1a, w4)
                                  | Inr u \<Rightarrow>
                                      (notify Success ''Configuration saved and schedule updated''
                                         (p1a\<lparr>schedule := Some created\<rparr>),
                                       w4))
                          | None \<Rightarrow>
                              (notify Error
                                 (nullish_or (c_error createRes) ''Failed to update schedule'') p1,
                               w3))))
      in (p2\<lparr>saving := False\<rparr>, w5))"

subsection \<open>Sample data\<close>

text \<open>
  Concrete states and services on which the handlers are run below: the initial state of
  the page as its \<open>useState\<close> calls give it, a browser with an empty local storage, and
  services that answer every request the same way.
\<close>

text \<open>
  \<open>JSON.stringify\<close> on settings, for the sample runs: the members in the order of
  \<open>DEFAULT_SETTINGS\<close>, strings quoted with the escapes of ECMA-262.
\<close>

definition hex_digit :: "nat \<Rightarrow> char" where
  "hex_digit n = (if n < 10 then char_of (48 + n) else char_of (87 + n))"

definition escape_char :: "char \<Rightarrow> string" where
  "escape_char c =
     (let n = (of_char c :: nat)
      in if c = CHR 0x22 then [CHR 0x5C, CHR 0x22]
         else if c = CHR 0x5C then [CHR 0x5C, CHR 0x5C]
         else if n = 8 then [CHR 0x5C, CHR ''b'']
         else if n = 9 then [CHR 0x5C, CHR ''t'']
         else if n = 10 then [CHR 0x5C, CHR ''n'']
         else if n = 12 then [CHR 0x5C, CHR ''f'']
         else if n = 13 then [CHR 0x5C, CHR ''r'']
         else if n < 32 then [CHR 0x5C, CHR ''u'', CHR ''0'', CHR ''0'',
                              hex_digit (n div 16), hex_digit (n mod 16)]
         else [c])"

definition quote :: "string \<Rightarrow> string" where
  "quote s = [CHR 0x22] @ concat (map escape_char s) @ [CHR 0x22]"

definition member :: "string \<Rightarrow> string \<Rightarrow> string" where
  "member k text = quote k @ '':'' @ text"

definition JSON_stringify :: "AlertSettings \<Rightarrow> string" where
  "JSON_stringify s =
     ''{'' @ join_with '',''
       [ member ''recipientEmails''
           (''['' @ join_with '','' (map quote (recipientEmails s)) @ '']''),
         member ''frequency'' (quote (frequency s)),
         member ''triggerTime'' (quote (triggerTime s)),
         member ''timezone'' (quote (timezone s)),
         member ''thresholdEnabled'' (if thresholdEnabled s then ''true'' else ''false''),
         member ''thresholdAbove'' (quote (thresholdAbove s)),
         member ''thresholdBelow'' (quote (thresholdBelow s)),
         member ''unit'' (quote (unit s)) ]
     @ ''}''"

definition always :: "'b \<Rightarrow> 'a \<Rightarrow> 'b" where
  "always v x = v"

definition sample_schedule :: "string \<Rightarrow> bool \<Rightarrow> Schedule" where
  "sample_schedule ident active =
     \<lparr> schedule_ident = ident, is_active = active, cron_expression = ''00 09 * * *'',
       next_run_time = None, last_run_at = None \<rparr>"

definition initial_page :: page_state where
  "initial_page =
     \<lparr> activeTab = Dashboard, settings = DEFAULT_SETTINGS, schedule = None,
       scheduleLoading = False, logs = [], logsLoading = False, lastResult = JNull,
       checkNowLoading = False, saving = False, notification = None, sampleMode = False,
       scheduleId = INITIAL_SCHEDULE_ID, sessionId = None, activeAgentId = None,
       processing = False \<rparr>"

definition empty_browser :: world where
  "empty_browser =
     \<lparr> window_defined = True, localStorage = Map.empty, accepts_write = always (always True),
       calls = [] \<rparr>"

definition full_browser :: world where
  "full_browser =
     \<lparr> window_defined = True, localStorage = Map.empty, accepts_write = always (always False),
       calls = [] \<rparr>"

definition settings_only_browser :: world where
  "settings_only_browser =
     \<lparr> window_defined = True, localStorage = Map.empty,
       accepts_write = (\<lambda>k v. k = STORAGE_KEY), calls = [] \<rparr>"

definition services_up :: services where
  "services_up =
     \<lparr> deleteSchedule = always (Inr True),
       createSchedule =
         (\<lambda>agent cron msg tz.
            Inr \<lparr> c_success = True, c_schedule = Some (sample_schedule ''sched-2'' True),
                  c_error = None \<rparr>),
       pauseSchedule = always (Inr True),
       resumeSchedule = always (Inr True),
       getSchedule =
         (\<lambda>ident. Inr \<lparr> g_success = True, g_schedule = Some (sample_schedule ident False) \<rparr>),
       callAIAgent =
         (\<lambda>msg agent.
            Inr (Some \<lparr> a_success = True, session_id = Some ''session-1'',
                        response = Some \<lparr> result = JObj [(''summary'', JStr ''ok'')] \<rparr>,
                        a_error = None \<rparr>)) \<rparr>"

definition services_refusing :: services where
  "services_refusing =
     \<lparr> deleteSchedule = always (Inr False),
       createSchedule =
         (\<lambda>agent cron msg tz.
            Inr \<lparr> c_success = False, c_schedule = None, c_error = Some ''quota exceeded'' \<rparr>),
       pauseSchedule = always (Inr False),
       resumeSchedule = always (Inr False),
       getSchedule = always (Inr \<lparr> g_success = False, g_schedule = None \<rparr>),
       callAIAgent =
         (\<lambda>msg agent.
            Inr (Some \<lparr> a_success = False, session_id = None, response = None,
                        a_error = Some ''agent unavailable'' \<rparr>)) \<rparr>"

definition services_down :: services where
  "services_down =
     \<lparr> deleteSchedule = always (Inl CallFailed),
       createSchedule = (\<lambda>agent cron msg tz. Inl CallFailed),
       pauseSchedule = always (Inl CallFailed),
       resumeSchedule = always (Inl CallFailed),
       getSchedule = always (Inl CallFailed),
       callAIAgent = (\<lambda>msg agent. Inl CallFailed) \<rparr>"

section \<open>Properties\<close>

subsection \<open>Cron translator\<close>

lemma split_on_nonempty: "split_on c s \<noteq> []"
  by (induction s) (auto split: list.splits)

lemma hour_never_missing: "\<exists>h. element_at (split_on c s) 0 = Some h"
  by (cases "split_on c s") (auto simp: split_on_nonempty)

lemma buildCron_unknown_frequency:
  "f \<noteq> ''hourly'' \<Longrightarrow> f \<noteq> ''weekly'' \<Longrightarrow> buildCron f t = buildCron ''daily'' t"
  by (simp add: buildCron_def Let_def)

lemma buildCron_missing_minute:
  "buildCron ''daily'' ''7'' = ''0 7 * * *''"
  by (simp add: buildCron_def nullish_or_def)

text \<open>
  C5, as stated, fails: at 09:30 the daily and the weekly expression keep the hour as it is
  written in the time string, \<open>09\<close>, so they are not \<open>30 9 * * *\<close> and \<open>30 9 * * 1\<close>.
\<close>

theorem buildCron_0930_counterexample:
  "buildCron ''daily'' ''09:30'' \<noteq> ''30 9 * * *''
   \<and> buildCron ''weekly'' ''09:30'' \<noteq> ''30 9 * * 1''"
  by (simp add: buildCron_def nullish_or_def)

text \<open>
  C5, amended: \<open>buildCron\<close> at 09:30 gives \<open>30 * * * *\<close> for hourly, \<open>30 09 * * *\<close> for daily
  and \<open>30 09 * * 1\<close> for weekly: the two components of the time string are copied as they are.
\<close>

theorem buildCron_0930:
  "buildCron ''hourly'' ''09:30'' = ''30 * * * *''
   \<and> buildCron ''daily'' ''09:30'' = ''30 09 * * *''
   \<and> buildCron ''weekly'' ''09:30'' = ''30 09 * * 1''"
  by (simp add: buildCron_def nullish_or_def)

text \<open>
  C6: the daily expression for the empty time string. The split of the empty string is the
  list of the empty string, so the hour is the empty string, not a missing one: the default
  9 is not taken and the expression is \<open>0  * * *\<close>, with an empty hour field.
\<close>

theorem buildCron_empty_time:
  "buildCron ''daily'' [] = ''0  * * *''"
  by (simp add: buildCron_def nullish_or_def)

subsection \<open>Response normalizer\<close>

lemma match_braces_span:
  assumes "CHR ''{'' \<notin> set pre" and "CHR ''}'' \<notin> set post"
    and "m \<noteq> []" and "hd m = CHR ''{''" and "last m = CHR ''}''"
  shows "match_braces (pre @ m @ post) = Some m"
proof -
  have open_m: "dropWhile (\<lambda>c. c \<noteq> CHR ''{'') (m @ post) = m @ post"
    using assms(3,4) by (cases m) auto
  have "dropWhile (\<lambda>c. c \<noteq> CHR ''{'') (pre @ (m @ post))
          = dropWhile (\<lambda>c. c \<noteq> CHR ''{'') (m @ post)"
    by (rule dropWhile_append2) (use assms(1) in auto)
  then have from_open: "dropWhile (\<lambda>c. c \<noteq> CHR ''{'') (pre @ m @ post) = m @ post"
    using open_m by simp
  have close_m: "dropWhile (\<lambda>c. c \<noteq> CHR ''}'') (rev m) = rev m"
    using assms(3,5) by (cases "rev m") (auto simp: last_rev[symmetric] hd_rev)
  have "dropWhile (\<lambda>c. c \<noteq> CHR ''}'') (rev post @ rev m)
          = dropWhile (\<lambda>c. c \<noteq> CHR ''}'') (rev m)"
    by (rule dropWhile_append2) (use assms(2) in auto)
  then have "dropWhile (\<lambda>c. c \<noteq> CHR ''}'') (rev post @ rev m) = rev m"
    using close_m by simp
  then have to_close: "rev (dropWhile (\<lambda>c. c \<noteq> CHR ''}'') (rev (m @ post))) = m"
    by simp
  show ?thesis
    unfolding match_braces_def Let_def from_open to_close using assms(3) by simp
qed

lemma match_braces_Some:
  assumes "match_braces s = Some m"
  shows "\<exists>pre post. s = pre @ m @ post \<and> CHR ''{'' \<notin> set pre \<and> CHR ''}'' \<notin> set post
           \<and> m \<noteq> [] \<and> hd m = CHR ''{'' \<and> last m = CHR ''}''"
proof -
  define P where "P = (\<lambda>c. c \<noteq> CHR ''{'')"
  define Q where "Q = (\<lambda>c. c \<noteq> CHR ''}'')"
  define fo where "fo = dropWhile P s"
  define pre where "pre = takeWhile P s"
  define post where "post = rev (takeWhile Q (rev fo))"
  from assms have m: "m = rev (dropWhile Q (rev fo))" and ne: "m \<noteq> []"
    by (auto simp: match_braces_def Let_def P_def Q_def fo_def split: if_splits)
  have "rev (dropWhile Q (rev fo)) @ rev (takeWhile Q (rev fo))
          = rev (takeWhile Q (rev fo) @ dropWhile Q (rev fo))"
    by (simp only: rev_append)
  also have "\<dots> = fo" by simp
  finally have fo: "fo = m @ post" by (simp add: m post_def)
  have "s = pre @ fo" by (simp add: pre_def fo_def)
  then have s: "s = pre @ m @ post" using fo by simp
  have pre: "CHR ''{'' \<notin> set pre"
    unfolding pre_def using set_takeWhileD[of "CHR ''{''" P s] by (auto simp: P_def)
  have post: "CHR ''}'' \<notin> set post"
    unfolding post_def using set_takeWhileD[of "CHR ''}''" Q "rev fo"] by (auto simp: Q_def)
  have "fo \<noteq> []" using fo ne by simp
  then have "\<not> P (hd fo)" unfolding fo_def by (rule hd_dropWhile)
  then have hd: "hd m = CHR ''{''" using fo ne by (simp add: P_def)
  have "dropWhile Q (rev fo) \<noteq> []" using m ne by simp
  then have "\<not> Q (hd (dropWhile Q (rev fo)))" by (rule hd_dropWhile)
  then have last: "last m = CHR ''}''" using m ne by (simp add: Q_def last_rev)
  from s pre post ne hd last show ?thesis by blast
qed

text \<open>
  C3, as stated, fails: on a string that is not JSON as a whole, the normalizer parses the
  span from the first opening brace to the last closing brace, not the first balanced span.
  On the string below, one JSON object between prose that holds braces of its own, the first
  balanced span is the object, and the normalizer returns null.
\<close>

theorem parseAgentResult_first_balanced_counterexample:
  \<open>parseAgentResult JSON_parse (JStr ''Price {"summary":"ok"} for set {x}'') = Inr JNull
   \<and> first_balanced_span ''Price {"summary":"ok"} for set {x}'' = Some ''{"summary":"ok"}''
   \<and> normalize_first_balanced JSON_parse ''Price {"summary":"ok"} for set {x}''
       = Inr (JObj [(''summary'', JStr ''ok'')])\<close>
proof (intro conjI)
  show \<open>parseAgentResult JSON_parse (JStr ''Price {"summary":"ok"} for set {x}'') = Inr JNull\<close>
    by code_simp
  show \<open>first_balanced_span ''Price {"summary":"ok"} for set {x}'' = Some ''{"summary":"ok"}''\<close>
    by code_simp
  show \<open>normalize_first_balanced JSON_parse ''Price {"summary":"ok"} for set {x}''
       = Inr (JObj [(''summary'', JStr ''ok'')])\<close>
    by code_simp
qed

text \<open>
  C3, amended: on every string \<open>parseAgentResult\<close> returns and does not throw. The empty
  string gives null. On another string it gives the direct parse when that succeeds;
  otherwise the parse of the span from the first opening brace to the last closing brace
  after it, and null when there is no such span or its parse fails. In particular, when one
  JSON object stands between a prose without opening brace before it and a prose without
  closing brace after it, and the whole is not JSON, the result is that object parsed.
\<close>

theorem parseAgentResult_string:
  "(\<exists>v. parseAgentResult parse (JStr s) = Inr v)
   \<and> parseAgentResult parse (JStr []) = Inr JNull
   \<and> (s \<noteq> [] \<longrightarrow>
        parseAgentResult parse (JStr s) =
          (case parse s of
             Inr v \<Rightarrow> Inr v
           | Inl e \<Rightarrow>
               (case match_braces s of
                  None \<Rightarrow> Inr JNull
                | Some m \<Rightarrow> (case parse m of Inr v \<Rightarrow> Inr v | Inl e1 \<Rightarrow> Inr JNull))))
   \<and> (match_braces s = Some m \<longleftrightarrow>
        (\<exists>pre post. s = pre @ m @ post \<and> CHR ''{'' \<notin> set pre \<and> CHR ''}'' \<notin> set post
           \<and> m \<noteq> [] \<and> hd m = CHR ''{'' \<and> last m = CHR ''}''))
   \<and> (s = before @ obj @ after \<and> CHR ''{'' \<notin> set before \<and> CHR ''}'' \<notin> set after
        \<and> obj \<noteq> [] \<and> hd obj = CHR ''{'' \<and> last obj = CHR ''}''
        \<and> parse s = Inl e \<and> parse obj = Inr v
        \<longrightarrow> parseAgentResult parse (JStr s) = Inr v)"
proof (intro conjI)
  show "\<exists>v. parseAgentResult parse (JStr s) = Inr v"
    by (auto simp: parseAgentResult_def split: sum.splits option.splits)
  show "parseAgentResult parse (JStr []) = Inr JNull"
    by (simp add: parseAgentResult_def)
  show "s \<noteq> [] \<longrightarrow>
        parseAgentResult parse (JStr s) =
          (case parse s of
             Inr v \<Rightarrow> Inr v
           | Inl e \<Rightarrow>
               (case match_braces s of
                  None \<Rightarrow> Inr JNull
                | Some m \<Rightarrow> (case parse m of Inr v \<Rightarrow> Inr v | Inl e1 \<Rightarrow> Inr JNull)))"
    by (auto simp: parseAgentResult_def split: sum.splits option.splits)
  show "match_braces s = Some m \<longleftrightarrow>
        (\<exists>pre post. s = pre @ m @ post \<and> CHR ''{'' \<notin> set pre \<and> CHR ''}'' \<notin> set post
           \<and> m \<noteq> [] \<and> hd m = CHR ''{'' \<and> last m = CHR ''}'')"
    using match_braces_Some match_braces_span by blast
  show "s = before @ obj @ after \<and> CHR ''{'' \<notin> set before \<and> CHR ''}'' \<notin> set after
        \<and> obj \<noteq> [] \<and> hd obj = CHR ''{'' \<and> last obj = CHR ''}''
        \<and> parse s = Inl e \<and> parse obj = Inr v
        \<longrightarrow> parseAgentResult parse (JStr s) = Inr v"
  proof
    assume a: "s = before @ obj @ after \<and> CHR ''{'' \<notin> set before \<and> CHR ''}'' \<notin> set after
        \<and> obj \<noteq> [] \<and> hd obj = CHR ''{'' \<and> last obj = CHR ''}''
        \<and> parse s = Inl e \<and> parse obj = Inr v"
    then have mb: "match_braces s = Some obj" using match_braces_span by blast
    from a have ne: "s \<noteq> []" and ps: "parse s = Inl e" and po: "parse obj = Inr v"
      by auto
    from ne ps po mb show "parseAgentResult parse (JStr s) = Inr v"
      by (simp add: parseAgentResult_def)
  qed
qed

theorem parseAgentResult_string_witness:
  \<open>JSON_parse ''Price {"summary":"ok"} today'' = Inl SyntaxError
   \<and> match_braces ''Price {"summary":"ok"} today'' = Some ''{"summary":"ok"}''
   \<and> parseAgentResult JSON_parse (JStr ''Price {"summary":"ok"} today'')
       = Inr (JObj [(''summary'', JStr ''ok'')])\<close>
proof -
  have whole: \<open>JSON_parse ''Price {"summary":"ok"} today'' = Inl SyntaxError\<close>
    by code_simp
  have inner: \<open>JSON_parse ''{"summary":"ok"}'' = Inr (JObj [(''summary'', JStr ''ok'')])\<close>
    by code_simp
  have split: \<open>''Price {"summary":"ok"} today'' = ''Price '' @ ''{"summary":"ok"}'' @ '' today''\<close>
    by simp
  have before: "CHR ''{'' \<notin> set ''Price ''" by simp
  have after: "CHR ''}'' \<notin> set '' today''" by simp
  have shape: \<open>''{"summary":"ok"}'' \<noteq> [] \<and> hd ''{"summary":"ok"}'' = CHR ''{''
      \<and> last ''{"summary":"ok"}'' = CHR ''}''\<close> by simp
  show ?thesis
    using parseAgentResult_string
        [where parse = JSON_parse and s = \<open>''Price {"summary":"ok"} today''\<close>
         and m = \<open>''{"summary":"ok"}''\<close>
         and before = "''Price ''" and obj = \<open>''{"summary":"ok"}''\<close> and after = "'' today''"
         and e = SyntaxError and v = \<open>JObj [(''summary'', JStr ''ok'')]\<close>]
      whole inner split before after shape
    by blast
qed

text \<open>
  C4: \<open>parseAgentResult\<close> returns its argument as it is when the argument is an object (its
  \<open>typeof\<close> is \<open>object\<close> and it is not null), returns null for null and for undefined, and
  returns null for every argument that is neither an object nor a string.
\<close>

theorem parseAgentResult_non_string:
  "(typeof x = ''object'' \<and> x \<noteq> JNull \<longrightarrow> parseAgentResult parse x = Inr x)
   \<and> parseAgentResult parse JNull = Inr JNull
   \<and> parseAgentResult parse JUndefined = Inr JNull
   \<and> (typeof x \<noteq> ''object'' \<and> typeof x \<noteq> ''string'' \<longrightarrow> parseAgentResult parse x = Inr JNull)"
  by (cases x) (auto simp: parseAgentResult_def)

theorem parseAgentResult_non_string_witness:
  "parseAgentResult JSON_parse (JObj [(''summary'', JStr ''ok'')])
     = Inr (JObj [(''summary'', JStr ''ok'')])
   \<and> parseAgentResult JSON_parse (JArr []) = Inr (JArr [])
   \<and> parseAgentResult JSON_parse (JNum 42) = Inr JNull
   \<and> parseAgentResult JSON_parse (JBool True) = Inr JNull"
  using parseAgentResult_non_string [of "JObj [(''summary'', JStr ''ok'')]" JSON_parse]
    parseAgentResult_non_string [of "JArr []" JSON_parse]
    parseAgentResult_non_string [of "JNum 42" JSON_parse]
    parseAgentResult_non_string [of "JBool True" JSON_parse]
  by simp

subsection \<open>Message composer\<close>

lemma sublist_middle: "sublist x (a @ x @ b)"
  by (auto simp: sublist_def)

lemma composeAgentMessage_text:
  "composeAgentMessage s =
     ''Fetch current gold prices and send an alert email.\<newline>Recipients: ''
     @ (if recipientEmails s = [] then ''no recipients configured''
        else join_with '', '' (recipientEmails s))
     @ ''\<newline>Threshold: '' @ thresholdLine s
     @ ''\<newline>Unit preference: '' @ unit s"
  by (simp add: composeAgentMessage_def)

lemma thresholdLine_cases:
  "thresholdLine s =
     (if \<not> thresholdEnabled s \<or> (thresholdAbove s = [] \<and> thresholdBelow s = [])
      then ''No threshold configured''
      else ''Alert when price goes ''
           @ (if thresholdAbove s = [] then []
              else ''above $'' @ thresholdAbove s @ ''/''
                   @ (if unit s = ''gram'' then ''g'' else ''oz''))
           @ (if thresholdAbove s \<noteq> [] \<and> thresholdBelow s \<noteq> [] then '' or '' else [])
           @ (if thresholdBelow s = [] then []
              else ''below $'' @ thresholdBelow s @ ''/''
                   @ (if unit s = ''gram'' then ''g'' else ''oz'')))"
  by (simp add: thresholdLine_def threshold_parts_def Let_def)

text \<open>
  C8: for every settings value the message is the fixed text with the recipients clause,
  the threshold line and the unit in their places. With no recipient the recipients clause
  is \<open>no recipients configured\<close>, and the message contains it. With the threshold disabled
  the threshold line is \<open>No threshold configured\<close> whatever the bounds; with the threshold
  enabled and both bounds empty it is the same text. With the threshold enabled and a bound
  set, the line names the bounds that are set, each with the unit label; in particular with
  \<open>thresholdAbove\<close> 2500 alone and the unit ounce, the threshold line is
  \<open>Alert when price goes above $2500/oz\<close>.
\<close>

theorem composeAgentMessage_clauses:
  "composeAgentMessage s =
     ''Fetch current gold prices and send an alert email.\<newline>Recipients: ''
     @ (if recipientEmails s = [] then ''no recipients configured''
        else join_with '', '' (recipientEmails s))
     @ ''\<newline>Threshold: ''
     @ (if \<not> thresholdEnabled s \<or> (thresholdAbove s = [] \<and> thresholdBelow s = [])
        then ''No threshold configured''
        else ''Alert when price goes ''
             @ (if thresholdAbove s = [] then []
                else ''above $'' @ thresholdAbove s @ ''/''
                     @ (if unit s = ''gram'' then ''g'' else ''oz''))
             @ (if thresholdAbove s \<noteq> [] \<and> thresholdBelow s \<noteq> [] then '' or '' else [])
             @ (if thresholdBelow s = [] then []
                else ''below $'' @ thresholdBelow s @ ''/''
                     @ (if unit s = ''gram'' then ''g'' else ''oz'')))
     @ ''\<newline>Unit preference: '' @ unit s
   \<and> (recipientEmails s = [] \<longrightarrow>
        sublist ''Recipients: no recipients configured\<newline>'' (composeAgentMessage s))
   \<and> (\<not> thresholdEnabled s \<longrightarrow>
        sublist ''\<newline>Threshold: No threshold configured\<newline>Unit preference: ''
          (composeAgentMessage s))
   \<and> (thresholdEnabled s \<and> thresholdAbove s = [] \<and> thresholdBelow s = [] \<longrightarrow>
        composeAgentMessage s = composeAgentMessage (s\<lparr>thresholdEnabled := False\<rparr>)
        \<and> sublist ''\<newline>Threshold: No threshold configured\<newline>Unit preference: ''
             (composeAgentMessage s))
   \<and> (thresholdEnabled s \<and> thresholdAbove s = ''2500'' \<and> thresholdBelow s = []
        \<and> unit s = ''ounce'' \<longrightarrow>
        composeAgentMessage s =
          ''Fetch current gold prices and send an alert email.\<newline>Recipients: ''
          @ (if recipientEmails s = [] then ''no recipients configured''
             else join_with '', '' (recipientEmails s))
          @ ''\<newline>Threshold: Alert when price goes above $2500/oz\<newline>Unit preference: ounce'')"
proof (intro conjI impI)
  show whole: "composeAgentMessage s =
     ''Fetch current gold prices and send an alert email.\<newline>Recipients: ''
     @ (if recipientEmails s = [] then ''no recipients configured''
        else join_with '', '' (recipientEmails s))
     @ ''\<newline>Threshold: ''
     @ (if \<not> thresholdEnabled s \<or> (thresholdAbove s = [] \<and> thresholdBelow s = [])
        then ''No threshold configured''
        else ''Alert when price goes ''
             @ (if thresholdAbove s = [] then []
                else ''above $'' @ thresholdAbove s @ ''/''
                     @ (if unit s = ''gram'' then ''g'' else ''oz''))
             @ (if thresholdAbove s \<noteq> [] \<and> thresholdBelow s \<noteq> [] then '' or '' else [])
             @ (if thresholdBelow s = [] then []
                else ''below $'' @ thresholdBelow s @ ''/''
                     @ (if unit s = ''gram'' then ''g'' else ''oz'')))
     @ ''\<newline>Unit preference: '' @ unit s"
    unfolding composeAgentMessage_text thresholdLine_cases ..
next
  assume "recipientEmails s = []"
  then have "composeAgentMessage s =
      ''Fetch current gold prices and send an alert email.\<newline>''
      @ ''Recipients: no recipients configured\<newline>''
      @ (''Threshold: '' @ thresholdLine s @ ''\<newline>Unit preference: '' @ unit s)"
    by (simp add: composeAgentMessage_text)
  then show "sublist ''Recipients: no recipients configured\<newline>'' (composeAgentMessage s)"
    using sublist_middle by metis
next
  assume "\<not> thresholdEnabled s"
  then have "composeAgentMessage s =
      (''Fetch current gold prices and send an alert email.\<newline>Recipients: ''
       @ (if recipientEmails s = [] then ''no recipients configured''
          else join_with '', '' (recipientEmails s)))
      @ ''\<newline>Threshold: No threshold configured\<newline>Unit preference: ''
      @ unit s"
    by (simp add: composeAgentMessage_text thresholdLine_cases)
  then show "sublist ''\<newline>Threshold: No threshold configured\<newline>Unit preference: ''
      (composeAgentMessage s)"
    using sublist_middle by metis
next
  assume a: "thresholdEnabled s \<and> thresholdAbove s = [] \<and> thresholdBelow s = []"
  then show "composeAgentMessage s = composeAgentMessage (s\<lparr>thresholdEnabled := False\<rparr>)"
    by (simp add: composeAgentMessage_text thresholdLine_cases)
  from a have "composeAgentMessage s =
      (''Fetch current gold prices and send an alert email.\<newline>Recipients: ''
       @ (if recipientEmails s = [] then ''no recipients configured''
          else join_with '', '' (recipientEmails s)))
      @ ''\<newline>Threshold: No threshold configured\<newline>Unit preference: ''
      @ unit s"
    by (simp add: composeAgentMessage_text thresholdLine_cases)
  then show "sublist ''\<newline>Threshold: No threshold configured\<newline>Unit preference: ''
      (composeAgentMessage s)"
    using sublist_middle by metis
next
  assume "thresholdEnabled s \<and> thresholdAbove s = ''2500'' \<and> thresholdBelow s = []
        \<and> unit s = ''ounce''"
  then show "composeAgentMessage s =
          ''Fetch current gold prices and send an alert email.\<newline>Recipients: ''
          @ (if recipientEmails s = [] then ''no recipients configured''
             else join_with '', '' (recipientEmails s))
          @ ''\<newline>Threshold: Alert when price goes above $2500/oz\<newline>Unit preference: ounce''"
    by (simp add: composeAgentMessage_text thresholdLine_cases)
qed

theorem composeAgentMessage_clauses_witness:
  "composeAgentMessage DEFAULT_SETTINGS =
     ''Fetch current gold prices and send an alert email.\<newline>Recipients: no recipients configured\<newline>Threshold: No threshold configured\<newline>Unit preference: ounce''
   \<and> composeAgentMessage (DEFAULT_SETTINGS\<lparr>thresholdEnabled := True, thresholdBelow := []\<rparr>) =
     ''Fetch current gold prices and send an alert email.\<newline>Recipients: no recipients configured\<newline>Threshold: Alert when price goes above $2500/oz\<newline>Unit preference: ounce''
   \<and> composeAgentMessage
        (DEFAULT_SETTINGS\<lparr>thresholdEnabled := True, thresholdAbove := [], thresholdBelow := []\<rparr>) =
     ''Fetch current gold prices and send an alert email.\<newline>Recipients: no recipients configured\<newline>Threshold: No threshold configured\<newline>Unit preference: ounce''
   \<and> composeAgentMessage
        (DEFAULT_SETTINGS\<lparr>recipientEmails := [''a@x.org'', ''b@y.org''], thresholdEnabled := True,
                           unit := ''gram''\<rparr>) =
     ''Fetch current gold prices and send an alert email.\<newline>Recipients: a@x.org, b@y.org\<newline>Threshold: Alert when price goes above $2500/g or below $2000/g\<newline>Unit preference: gram''"
  using composeAgentMessage_clauses [of DEFAULT_SETTINGS]
    composeAgentMessage_clauses
      [of "DEFAULT_SETTINGS\<lparr>thresholdEnabled := True, thresholdBelow := []\<rparr>"]
    composeAgentMessage_clauses
      [of "DEFAULT_SETTINGS\<lparr>thresholdEnabled := True, thresholdAbove := [], thresholdBelow := []\<rparr>"]
    composeAgentMessage_clauses
      [of "DEFAULT_SETTINGS\<lparr>recipientEmails := [''a@x.org'', ''b@y.org''], thresholdEnabled := True,
                           unit := ''gram''\<rparr>"]
  by (simp add: DEFAULT_SETTINGS_def)

subsection \<open>Recipient editor\<close>

text \<open>
  C9: from a list of recipients without duplicates, \<open>addEmail\<close> appends the trimmed input when
  it is not empty, contains an at sign and is not in the list, and leaves the list as it is
  otherwise; \<open>removeEmail\<close> keeps the recipients other than the given one, so the given one
  no longer occurs. Both results are without duplicates.
\<close>

theorem recipients_distinct:
  assumes "distinct (recipientEmails s)"
  shows "distinct (recipientEmails (fst (addEmail input s)))
    \<and> recipientEmails (fst (addEmail input s)) =
        (if trim input \<noteq> [] \<and> CHR ''@'' \<in> set (trim input)
            \<and> trim input \<notin> set (recipientEmails s)
         then recipientEmails s @ [trim input] else recipientEmails s)
    \<and> distinct (recipientEmails (removeEmail e s))
    \<and> e \<notin> set (recipientEmails (removeEmail e s))
    \<and> recipientEmails (removeEmail e s) = filter (\<lambda>x. x \<noteq> e) (recipientEmails s)"
  using assms by (auto simp: addEmail_def removeEmail_def Let_def)

theorem recipients_distinct_witness:
  "distinct (recipientEmails (DEFAULT_SETTINGS\<lparr>recipientEmails := [''a@x.org'', ''b@y.org'']\<rparr>))
   \<and> recipientEmails
        (fst (addEmail '' c@z.org  ''
               (DEFAULT_SETTINGS\<lparr>recipientEmails := [''a@x.org'', ''b@y.org'']\<rparr>)))
       = [''a@x.org'', ''b@y.org'', ''c@z.org'']
   \<and> recipientEmails
        (fst (addEmail ''b@y.org''
               (DEFAULT_SETTINGS\<lparr>recipientEmails := [''a@x.org'', ''b@y.org'']\<rparr>)))
       = [''a@x.org'', ''b@y.org'']
   \<and> recipientEmails
        (removeEmail ''a@x.org'' (DEFAULT_SETTINGS\<lparr>recipientEmails := [''a@x.org'', ''b@y.org'']\<rparr>))
       = [''b@y.org'']"
proof -
  have d: "distinct (recipientEmails (DEFAULT_SETTINGS\<lparr>recipientEmails := [''a@x.org'', ''b@y.org'']\<rparr>))"
    by simp
  have t1: "trim '' c@z.org  '' = ''c@z.org''"
    by (simp add: trim_def is_js_space_def)
  have t2: "trim ''b@y.org'' = ''b@y.org''"
    by (simp add: trim_def is_js_space_def)
  show ?thesis
    using d t1 t2
      recipients_distinct [OF d, of "'' c@z.org  ''" "''a@x.org''"]
      recipients_distinct [OF d, of "''b@y.org''" "''a@x.org''"]
    by simp
qed

subsection \<open>Resilient call gateway\<close>

text \<open>
  C2, as stated, fails: a response that is redirected and has a status of 500 or more makes
  the gateway navigate to the response's address and return undefined without any prompt,
  since the redirect is tested first. Here the status is 503 and the list of prompts stays
  empty.
\<close>

theorem fetchWrapper_redirected_5xx_counterexample:
  "fetchWrapper
     (always (Inr \<lparr>redirected = True, status = 503, url = ''/login'', body = []\<rparr>))
     (always True) ()
     \<lparr>location_href = ''/app'', reloads = 0, prompts = []\<rparr>
   = (Inr None, \<lparr>location_href = ''/login'', reloads = 0, prompts = []\<rparr>)"
  by (simp add: fetchWrapper_def always_def)

text \<open>
  C2, amended: \<open>fetchWrapper\<close> never throws to its caller. On a redirected response it
  navigates to the response's address and returns undefined. On a response with a status of
  500 or more it returns undefined, and when that response is not redirected it prompts the
  user once with the backend message and reloads exactly when the user accepts. When the
  request fails it prompts once with the connection message, reloads exactly when the user
  accepts, and returns undefined. On a response that is not redirected and has a status
  under 500 it returns the response as it is and leaves the browser alone.
\<close>

theorem fetchWrapper_cases:
  "(\<exists>r. fst (fetchWrapper fetch confirm args b) = Inr r)
   \<and> (fetch args = Inr resp \<and> redirected resp \<longrightarrow>
        fetchWrapper fetch confirm args b = (Inr None, b\<lparr>location_href := url resp\<rparr>))
   \<and> (fetch args = Inr resp \<and> status resp \<ge> 500 \<longrightarrow>
        fst (fetchWrapper fetch confirm args b) = Inr None)
   \<and> (fetch args = Inr resp \<and> \<not> redirected resp \<and> status resp \<ge> 500 \<longrightarrow>
        fetchWrapper fetch confirm args b =
          (Inr None,
           b\<lparr>prompts := prompts b @ [backend_prompt],
             reloads := (if confirm backend_prompt then Suc (reloads b) else reloads b)\<rparr>))
   \<and> (fetch args = Inl err \<longrightarrow>
        fetchWrapper fetch confirm args b =
          (Inr None,
           b\<lparr>prompts := prompts b @ [network_prompt],
             reloads := (if confirm network_prompt then Suc (reloads b) else reloads b)\<rparr>))
   \<and> (fetch args = Inr resp \<and> \<not> redirected resp \<and> status resp < 500 \<longrightarrow>
        fetchWrapper fetch confirm args b = (Inr (Some resp), b))"
  by (auto simp: fetchWrapper_def ask_refresh_def Let_def split: sum.splits)

theorem fetchWrapper_cases_witness:
  "fetchWrapper
     (always (Inr \<lparr>redirected = True, status = 200, url = ''/login'', body = []\<rparr>))
     (always False) ()
     \<lparr>location_href = ''/app'', reloads = 0, prompts = []\<rparr>
   = (Inr None, \<lparr>location_href = ''/login'', reloads = 0, prompts = []\<rparr>)
   \<and> fetchWrapper
     (always (Inr \<lparr>redirected = False, status = 500, url = ''/api'', body = []\<rparr>))
     (always True) ()
     \<lparr>location_href = ''/app'', reloads = 0, prompts = []\<rparr>
   = (Inr None, \<lparr>location_href = ''/app'', reloads = 1, prompts = [backend_prompt]\<rparr>)
   \<and> fetchWrapper
     (always (Inr \<lparr>redirected = False, status = 500, url = ''/api'', body = []\<rparr>))
     (always False) ()
     \<lparr>location_href = ''/app'', reloads = 0, prompts = []\<rparr>
   = (Inr None, \<lparr>location_href = ''/app'', reloads = 0, prompts = [backend_prompt]\<rparr>)
   \<and> fetchWrapper (always (Inl CallFailed)) (always False) ()
     \<lparr>location_href = ''/app'', reloads = 0, prompts = []\<rparr>
   = (Inr None, \<lparr>location_href = ''/app'', reloads = 0, prompts = [network_prompt]\<rparr>)
   \<and> fetchWrapper
     (always (Inr \<lparr>redirected = False, status = 404, url = ''/api'', body = ''not found''\<rparr>))
     (always True) ()
     \<lparr>location_href = ''/app'', reloads = 0, prompts = []\<rparr>
   = (Inr (Some \<lparr>redirected = False, status = 404, url = ''/api'', body = ''not found''\<rparr>),
      \<lparr>location_href = ''/app'', reloads = 0, prompts = []\<rparr>)"
  using
    fetchWrapper_cases
      [where fetch = "always (Inr \<lparr>redirected = True, status = 200, url = ''/login'', body = []\<rparr>)"
         and confirm = "always False" and args = "()"
         and b = "\<lparr>location_href = ''/app'', reloads = 0, prompts = []\<rparr>"
         and resp = "\<lparr>redirected = True, status = 200, url = ''/login'', body = []\<rparr>"]
    fetchWrapper_cases
      [where fetch = "always (Inr \<lparr>redirected = False, status = 500, url = ''/api'', body = []\<rparr>)"
         and confirm = "always True" and args = "()"
         and b = "\<lparr>location_href = ''/app'', reloads = 0, prompts = []\<rparr>"
         and resp = "\<lparr>redirected = False, status = 500, url = ''/api'', body = []\<rparr>"]
    fetchWrapper_cases
      [where fetch = "always (Inr \<lparr>redirected = False, status = 500, url = ''/api'', body = []\<rparr>)"
         and confirm = "always False" and args = "()"
         and b = "\<lparr>location_href = ''/app'', reloads = 0, prompts = []\<rparr>"
         and resp = "\<lparr>redirected = False, status = 500, url = ''/api'', body = []\<rparr>"]
    fetchWrapper_cases
      [where fetch = "always (Inl CallFailed)"
         and confirm = "always False" and args = "()"
         and b = "\<lparr>location_href = ''/app'', reloads = 0, prompts = []\<rparr>"
         and err = CallFailed]
    fetchWrapper_cases
      [where fetch = "always (Inr \<lparr>redirected = False, status = 404, url = ''/api'', body = ''not found''\<rparr>)"
         and confirm = "always True" and args = "()"
         and b = "\<lparr>location_href = ''/app'', reloads = 0, prompts = []\<rparr>"
         and resp = "\<lparr>redirected = False, status = 404, url = ''/api'', body = ''not found''\<rparr>"]
  by (simp add: always_def)

subsection \<open>Handlers of the page\<close>

text \<open>
  C7, as stated, fails in two ways. When the pause request throws, no get follows: the
  pause is the only request. When the get returns without success, the displayed schedule
  is the loaded one, still active, under the success notification \<open>Schedule paused\<close>: no
  freshly fetched schedule is displayed.
\<close>

theorem handleToggleSchedule_always_get_counterexample:
  "calls (snd (handleToggleSchedule services_down
       (initial_page\<lparr>schedule := Some (sample_schedule INITIAL_SCHEDULE_ID True)\<rparr>)
       empty_browser))
     = [PauseSchedule INITIAL_SCHEDULE_ID]
   \<and> calls (snd (handleToggleSchedule services_refusing
       (initial_page\<lparr>schedule := Some (sample_schedule INITIAL_SCHEDULE_ID True)\<rparr>)
       empty_browser))
     = [PauseSchedule INITIAL_SCHEDULE_ID, GetSchedule INITIAL_SCHEDULE_ID]
   \<and> schedule (fst (handleToggleSchedule services_refusing
       (initial_page\<lparr>schedule := Some (sample_schedule INITIAL_SCHEDULE_ID True)\<rparr>)
       empty_browser))
     = Some (sample_schedule INITIAL_SCHEDULE_ID True)
   \<and> notification (fst (handleToggleSchedule services_refusing
       (initial_page\<lparr>schedule := Some (sample_schedule INITIAL_SCHEDULE_ID True)\<rparr>)
       empty_browser))
     = Some \<lparr>ntype = Success, message = ''Schedule paused''\<rparr>"
  by (simp add: handleToggleSchedule_def notify_def record_call_def Let_def
        initial_page_def empty_browser_def services_down_def services_refusing_def
        always_def sample_schedule_def)

text \<open>
  C7, amended: without a loaded schedule \<open>handleToggleSchedule\<close> changes nothing and makes no
  request. With a loaded schedule its first request is a pause when the schedule is active
  and a resume otherwise. When that request throws, no get is made. When it returns, the
  next and last request is a get of the schedule; when the get returns success with a
  schedule, the displayed schedule is that schedule, and otherwise the displayed schedule
  stays the loaded one, never a copy with \<open>is_active\<close> flipped. The notification is a success
  when both requests return and an error when one of them throws. Nothing else of the state
  changes, and the loading flag is off afterwards.
\<close>

theorem handleToggleSchedule_refetch:
  "(schedule p = None \<longrightarrow> handleToggleSchedule svc p w = (p, w))
   \<and> (schedule p = Some sch \<longrightarrow>
        (let toggle = (if is_active sch then PauseSchedule (scheduleId p)
                       else ResumeSchedule (scheduleId p));
             toggled = (if is_active sch then pauseSchedule svc (scheduleId p)
                        else resumeSchedule svc (scheduleId p));
             fetched = getSchedule svc (scheduleId p);
             failure = Some \<lparr>ntype = Error, message = ''Failed to update schedule status''\<rparr>;
             success = Some \<lparr>ntype = Success,
                              message = (if is_active sch then ''Schedule paused''
                                         else ''Schedule resumed'')\<rparr>
         in (toggled = Inl err \<longrightarrow>
               handleToggleSchedule svc p w
                 = (p\<lparr>scheduleLoading := False, notification := failure\<rparr>,
                    w\<lparr>calls := calls w @ [toggle]\<rparr>))
            \<and> (toggled = Inr ok \<and> fetched = Inl err \<longrightarrow>
               handleToggleSchedule svc p w
                 = (p\<lparr>scheduleLoading := False, notification := failure\<rparr>,
                    w\<lparr>calls := calls w @ [toggle, GetSchedule (scheduleId p)]\<rparr>))
            \<and> (toggled = Inr ok \<and> fetched = Inr res \<and> g_success res
                  \<and> g_schedule res = Some fresh \<longrightarrow>
               handleToggleSchedule svc p w
                 = (p\<lparr>schedule := Some fresh, scheduleLoading := False,
                      notification := success\<rparr>,
                    w\<lparr>calls := calls w @ [toggle, GetSchedule (scheduleId p)]\<rparr>))
            \<and> (toggled = Inr ok \<and> fetched = Inr res
                  \<and> \<not> (g_success res \<and> g_schedule res \<noteq> None) \<longrightarrow>
               handleToggleSchedule svc p w
                 = (p\<lparr>scheduleLoading := False, notification := success\<rparr>,
                    w\<lparr>calls := calls w @ [toggle, GetSchedule (scheduleId p)]\<rparr>))))"
  by (auto simp: handleToggleSchedule_def notify_def record_call_def Let_def
           split: sum.splits option.splits prod.splits)

theorem handleToggleSchedule_refetch_witness:
  "handleToggleSchedule services_up initial_page empty_browser = (initial_page, empty_browser)
   \<and> calls (snd (handleToggleSchedule services_up
        (initial_page\<lparr>schedule := Some (sample_schedule INITIAL_SCHEDULE_ID True)\<rparr>)
        empty_browser))
       = [PauseSchedule INITIAL_SCHEDULE_ID, GetSchedule INITIAL_SCHEDULE_ID]
   \<and> schedule (fst (handleToggleSchedule services_up
        (initial_page\<lparr>schedule := Some (sample_schedule INITIAL_SCHEDULE_ID True)\<rparr>)
        empty_browser))
       = Some (sample_schedule INITIAL_SCHEDULE_ID False)
   \<and> calls (snd (handleToggleSchedule services_down
        (initial_page\<lparr>schedule := Some (sample_schedule INITIAL_SCHEDULE_ID False)\<rparr>)
        empty_browser))
       = [ResumeSchedule INITIAL_SCHEDULE_ID]
   \<and> notification (fst (handleToggleSchedule services_down
        (initial_page\<lparr>schedule := Some (sample_schedule INITIAL_SCHEDULE_ID False)\<rparr>)
        empty_browser))
       = Some \<lparr>ntype = Error, message = ''Failed to update schedule status''\<rparr>
   \<and> schedule (fst (handleToggleSchedule services_refusing
        (initial_page\<lparr>schedule := Some (sample_schedule INITIAL_SCHEDULE_ID False)\<rparr>)
        empty_browser))
       = Some (sample_schedule INITIAL_SCHEDULE_ID False)"
  using
    handleToggleSchedule_refetch [where p = initial_page and svc = services_up
        and w = empty_browser]
    handleToggleSchedule_refetch
      [where p = "initial_page\<lparr>schedule := Some (sample_schedule INITIAL_SCHEDULE_ID True)\<rparr>"
         and svc = services_up and w = empty_browser
         and sch = "sample_schedule INITIAL_SCHEDULE_ID True" and ok = True
         and res = "\<lparr>g_success = True,
                     g_schedule = Some (sample_schedule INITIAL_SCHEDULE_ID False)\<rparr>"
         and fresh = "sample_schedule INITIAL_SCHEDULE_ID False"]
    handleToggleSchedule_refetch
      [where p = "initial_page\<lparr>schedule := Some (sample_schedule INITIAL_SCHEDULE_ID False)\<rparr>"
         and svc = services_down and w = empty_browser
         and sch = "sample_schedule INITIAL_SCHEDULE_ID False" and err = CallFailed]
    handleToggleSchedule_refetch
      [where p = "initial_page\<lparr>schedule := Some (sample_schedule INITIAL_SCHEDULE_ID False)\<rparr>"
         and svc = services_refusing and w = empty_browser
         and sch = "sample_schedule INITIAL_SCHEDULE_ID False" and ok = False
         and res = "\<lparr>g_success = False, g_schedule = None\<rparr>"]
  by (simp add: initial_page_def empty_browser_def services_up_def services_down_def
        services_refusing_def always_def sample_schedule_def Let_def)

text \<open>
  C10: whatever the agent call does (a result that parses, one that does not, a reported
  failure, an exception), \<open>handleCheckNow\<close> leaves the settings, the displayed schedule, the
  managed schedule identifier and the logs as they were, and local storage too. The state
  afterwards is the state before with a last result, a session identifier and a
  notification of its own, the check-now loading flag and the processing flag off, and the
  active agent cleared.
\<close>

theorem handleCheckNow_frame:
  "fst (handleCheckNow svc parse p w) =
     p\<lparr>lastResult := lastResult (fst (handleCheckNow svc parse p w)),
       sessionId := sessionId (fst (handleCheckNow svc parse p w)),
       notification := notification (fst (handleCheckNow svc parse p w)),
       checkNowLoading := False, activeAgentId := None, processing := False\<rparr>
   \<and> settings (fst (handleCheckNow svc parse p w)) = settings p
   \<and> schedule (fst (handleCheckNow svc parse p w)) = schedule p
   \<and> scheduleId (fst (handleCheckNow svc parse p w)) = scheduleId p
   \<and> logs (fst (handleCheckNow svc parse p w)) = logs p
   \<and> checkNowLoading (fst (handleCheckNow svc parse p w)) = False
   \<and> localStorage (snd (handleCheckNow svc parse p w)) = localStorage w
   \<and> calls (snd (handleCheckNow svc parse p w))
       = calls w @ [CallAIAgent (composeAgentMessage (settings p)) MANAGER_AGENT_ID]"
  by (auto simp: handleCheckNow_def notify_def record_call_def Let_def
           split: sum.splits option.splits)

text \<open>
  C1, as stated, fails where a write to local storage throws. When the browser refuses the
  write of the settings, the handler requests neither the deletion nor the creation, and
  the settings are not stored. When the creation succeeds and the browser refuses the write
  of the new identifier, the managed identifier in the state is the new one while none is
  stored, and the notification is an error.
\<close>

theorem handleSaveSettings_refused_write_counterexample:
  "calls (snd (handleSaveSettings services_up JSON_stringify initial_page full_browser))
     = [SetItem STORAGE_KEY (JSON_stringify DEFAULT_SETTINGS)]
   \<and> localStorage (snd (handleSaveSettings services_up JSON_stringify initial_page full_browser))
       STORAGE_KEY = None
   \<and> scheduleId
       (fst (handleSaveSettings services_up JSON_stringify initial_page settings_only_browser))
     = ''sched-2''
   \<and> localStorage
       (snd (handleSaveSettings services_up JSON_stringify initial_page settings_only_browser))
       SCHEDULE_ID_KEY = None
   \<and> notification
       (fst (handleSaveSettings services_up JSON_stringify initial_page settings_only_browser))
     = Some \<lparr>ntype = Error, message = ''Error saving configuration''\<rparr>"
  by (simp add: handleSaveSettings_def saveSettings_def saveScheduleId_def setItem_def
        notify_def record_call_def Let_def initial_page_def full_browser_def
        settings_only_browser_def services_up_def always_def sample_schedule_def
        STORAGE_KEY_def SCHEDULE_ID_KEY_def)

text \<open>
  C1, amended: in a browser, \<open>handleSaveSettings\<close> first writes the settings to local
  storage. When that write throws it requests nothing and sets the error notification.
  Otherwise the settings are stored whatever the requests do; it then requests the deletion
  of the managed schedule and, whatever the deletion did, the creation of a new one. When
  the creation returns success with a schedule, the managed identifier in the state becomes
  the identifier of that schedule and is written to local storage; when the write is taken,
  the identifier is stored, the schedule displayed and the notification a success, and
  when it throws, the stored identifier is as before and the notification an error. When
  the creation throws or returns without success or schedule, the managed identifier is as
  before in the state and in local storage, and the notification is an error. Nothing else
  of the state changes, and the saving flag is off afterwards.
\<close>

theorem handleSaveSettings_protocol:
  assumes "window_defined w"
  shows
    "(let cron = buildCron (frequency (settings p)) (triggerTime (settings p));
          text = composeAgentMessage (settings p);
          request = CreateSchedule MANAGER_AGENT_ID cron text (timezone (settings p));
          created = createSchedule svc MANAGER_AGENT_ID cron text (timezone (settings p));
          stored = SetItem STORAGE_KEY (stringify (settings p));
          requests = [stored, DeleteSchedule (scheduleId p), request];
          failure = Some \<lparr>ntype = Error, message = ''Error saving configuration''\<rparr>;
          w1 = w\<lparr>localStorage := (localStorage w)(STORAGE_KEY \<mapsto> stringify (settings p))\<rparr>
      in (\<not> accepts_write w STORAGE_KEY (stringify (settings p)) \<longrightarrow>
            handleSaveSettings svc stringify p w
              = (p\<lparr>saving := False, notification := failure\<rparr>,
                 w\<lparr>calls := calls w @ [stored]\<rparr>))
         \<and> (accepts_write w STORAGE_KEY (stringify (settings p)) \<and> created = Inl err \<longrightarrow>
            handleSaveSettings svc stringify p w
              = (p\<lparr>saving := False, notification := failure\<rparr>,
                 w1\<lparr>calls := calls w @ requests\<rparr>))
         \<and> (accepts_write w STORAGE_KEY (stringify (settings p)) \<and> created = Inr res
              \<and> \<not> (c_success res \<and> c_schedule res \<noteq> None) \<longrightarrow>
            handleSaveSettings svc stringify p w
              = (p\<lparr>saving := False,
                   notification :=
                     Some \<lparr>ntype = Error,
                           message = nullish_or (c_error res) ''Failed to update schedule''\<rparr>\<rparr>,
                 w1\<lparr>calls := calls w @ requests\<rparr>))
         \<and> (accepts_write w STORAGE_KEY (stringify (settings p)) \<and> created = Inr res
              \<and> c_success res \<and> c_schedule res = Some new
              \<and> accepts_write w SCHEDULE_ID_KEY (schedule_ident new) \<longrightarrow>
            handleSaveSettings svc stringify p w
              = (p\<lparr>saving := False, scheduleId := schedule_ident new, schedule := Some new,
                   notification :=
                     Some \<lparr>ntype = Success,
                           message = ''Configuration saved and schedule updated''\<rparr>\<rparr>,
                 w1\<lparr>localStorage := (localStorage w1)(SCHEDULE_ID_KEY \<mapsto> schedule_ident new),
                    calls := calls w @ requests
                               @ [SetItem SCHEDULE_ID_KEY (schedule_ident new)]\<rparr>))
         \<and> (accepts_write w STORAGE_KEY (stringify (settings p)) \<and> created = Inr res
              \<and> c_success res \<and> c_schedule res = Some new
              \<and> \<not> accepts_write w SCHEDULE_ID_KEY (schedule_ident new) \<longrightarrow>
            handleSaveSettings svc stringify p w
              = (p\<lparr>saving := False, scheduleId := schedule_ident new, notification := failure\<rparr>,
                 w1\<lparr>calls := calls w @ requests
                               @ [SetItem SCHEDULE_ID_KEY (schedule_ident new)]\<rparr>)))"
  using assms
  by (auto simp: handleSaveSettings_def saveSettings_def saveScheduleId_def setItem_def
        notify_def record_call_def Let_def
           split: sum.splits option.splits prod.splits if_splits)

theorem handleSaveSettings_protocol_witness:
  "window_defined empty_browser
   \<and> calls (snd (handleSaveSettings services_down JSON_stringify initial_page full_browser))
       = [SetItem STORAGE_KEY (JSON_stringify DEFAULT_SETTINGS)]
   \<and> localStorage (snd (handleSaveSettings services_down JSON_stringify initial_page empty_browser))
       STORAGE_KEY = Some (JSON_stringify DEFAULT_SETTINGS)
   \<and> calls (snd (handleSaveSettings services_down JSON_stringify initial_page empty_browser))
       = [SetItem STORAGE_KEY (JSON_stringify DEFAULT_SETTINGS),
          DeleteSchedule INITIAL_SCHEDULE_ID,
          CreateSchedule MANAGER_AGENT_ID (buildCron ''daily'' ''09:00'')
            (composeAgentMessage DEFAULT_SETTINGS) ''America/New_York'']
   \<and> scheduleId (fst (handleSaveSettings services_down JSON_stringify initial_page empty_browser))
       = INITIAL_SCHEDULE_ID
   \<and> localStorage (snd (handleSaveSettings services_down JSON_stringify initial_page empty_browser))
       SCHEDULE_ID_KEY = None
   \<and> notification
        (fst (handleSaveSettings services_refusing JSON_stringify initial_page empty_browser))
       = Some \<lparr>ntype = Error, message = ''quota exceeded''\<rparr>
   \<and> scheduleId
        (fst (handleSaveSettings services_refusing JSON_stringify initial_page empty_browser))
       = INITIAL_SCHEDULE_ID
   \<and> scheduleId (fst (handleSaveSettings services_up JSON_stringify initial_page empty_browser))
       = ''sched-2''
   \<and> localStorage (snd (handleSaveSettings services_up JSON_stringify initial_page empty_browser))
       SCHEDULE_ID_KEY = Some ''sched-2''
   \<and> localStorage
        (snd (handleSaveSettings services_up JSON_stringify initial_page settings_only_browser))
       SCHEDULE_ID_KEY = None"
proof -
  have browser: "window_defined empty_browser" "window_defined full_browser"
    "window_defined settings_only_browser"
    by (simp_all add: empty_browser_def full_browser_def settings_only_browser_def)
  have s: "settings initial_page = DEFAULT_SETTINGS" "scheduleId initial_page = INITIAL_SCHEDULE_ID"
    by (simp_all add: initial_page_def)
  have d: "frequency DEFAULT_SETTINGS = ''daily''" "triggerTime DEFAULT_SETTINGS = ''09:00''"
    "timezone DEFAULT_SETTINGS = ''America/New_York''"
    by (simp_all add: DEFAULT_SETTINGS_def)
  have e: "calls empty_browser = []" "calls full_browser = []" "calls settings_only_browser = []"
    "localStorage empty_browser = Map.empty" "localStorage settings_only_browser = Map.empty"
    by (simp_all add: empty_browser_def full_browser_def settings_only_browser_def)
  have a: "accepts_write empty_browser k v" "\<not> accepts_write full_browser k v"
    "accepts_write settings_only_browser k v = (k = STORAGE_KEY)" for k v
    by (simp_all add: empty_browser_def full_browser_def settings_only_browser_def always_def)
  have keys: "SCHEDULE_ID_KEY \<noteq> STORAGE_KEY"
    by (simp add: SCHEDULE_ID_KEY_def STORAGE_KEY_def)
  have down: "createSchedule services_down MANAGER_AGENT_ID (buildCron ''daily'' ''09:00'')
      (composeAgentMessage DEFAULT_SETTINGS) ''America/New_York'' = Inl CallFailed"
    by (simp add: services_down_def)
  have refusing: "createSchedule services_refusing MANAGER_AGENT_ID (buildCron ''daily'' ''09:00'')
      (composeAgentMessage DEFAULT_SETTINGS) ''America/New_York''
      = Inr \<lparr>c_success = False, c_schedule = None, c_error = Some ''quota exceeded''\<rparr>"
    by (simp add: services_refusing_def)
  have up: "createSchedule services_up MANAGER_AGENT_ID (buildCron ''daily'' ''09:00'')
      (composeAgentMessage DEFAULT_SETTINGS) ''America/New_York''
      = Inr \<lparr>c_success = True, c_schedule = Some (sample_schedule ''sched-2'' True),
             c_error = None\<rparr>"
    by (simp add: services_up_def)
  have i: "schedule_ident (sample_schedule ''sched-2'' True) = ''sched-2''"
    by (simp add: sample_schedule_def)
  show ?thesis
    using browser(1)
      handleSaveSettings_protocol [OF browser(2), where svc = services_down
        and stringify = JSON_stringify and p = initial_page]
      handleSaveSettings_protocol [OF browser(1), where svc = services_down
        and stringify = JSON_stringify and p = initial_page and err = CallFailed]
      handleSaveSettings_protocol [OF browser(1), where svc = services_refusing
        and stringify = JSON_stringify and p = initial_page
        and res = "\<lparr>c_success = False, c_schedule = None, c_error = Some ''quota exceeded''\<rparr>"]
      handleSaveSettings_protocol [OF browser(1), where svc = services_up
        and stringify = JSON_stringify and p = initial_page
        and res = "\<lparr>c_success = True, c_schedule = Some (sample_schedule ''sched-2'' True),
                     c_error = None\<rparr>"
        and new = "sample_schedule ''sched-2'' True"]
      handleSaveSettings_protocol [OF browser(3), where svc = services_up
        and stringify = JSON_stringify and p = initial_page
        and res = "\<lparr>c_success = True, c_schedule = Some (sample_schedule ''sched-2'' True),
                     c_error = None\<rparr>"
        and new = "sample_schedule ''sched-2'' True"]
    unfolding Let_def s d e down refusing up i
    by (simp add: a s e keys keys [symmetric] nullish_or_def)
qed

end
